theory Spec2Isabelle
  imports Main
begin

section \<open>Python values, exceptions and external calls\<close>

text \<open>
  The wrapper of \<^verbatim>\<open>client.py\<close> passes Python objects around and only ever asks for their
  truth value. The credentials come from the constructor's arguments or out of a parsed
  JSON document, so they are modelled by the values \<^verbatim>\<open>json.loads\<close> produces (numbers are
  integers here; floating point numbers are left out).
\<close>

datatype pyval =
    PNone
  | PBool bool
  | PInt int
  | PStr string
  | PList "pyval list"
  | PDict "(string \<times> pyval) list"

text \<open>Python's truth value testing: \<^verbatim>\<open>None\<close>, \<^verbatim>\<open>False\<close>, zero and empty containers are false.\<close>

fun truthy :: "pyval \<Rightarrow> bool" where
  "truthy PNone = False"
| "truthy (PBool b) = b"
| "truthy (PInt i) = (i \<noteq> 0)"
| "truthy (PStr s) = (s \<noteq> [])"
| "truthy (PList xs) = (xs \<noteq> [])"
| "truthy (PDict kvs) = (kvs \<noteq> [])"

text \<open>
  \<^verbatim>\<open>secret_name\<close>, \<^verbatim>\<open>namespace\<close> and \<^verbatim>\<open>keyvault_name\<close> are \<^verbatim>\<open>None\<close> or a string.
\<close>

fun given :: "string option \<Rightarrow> bool" where
  "given None = False"
| "given (Some s) = (s \<noteq> [])"

text \<open>What an f-string prints for such a value.\<close>

fun format_name :: "string option \<Rightarrow> string" where
  "format_name None = ''None''"
| "format_name (Some s) = s"

text \<open>
  Exceptions are values. Every one of them stands for an instance of Python's
  \<^verbatim>\<open>Exception\<close> class, the class the \<^verbatim>\<open>except Exception\<close> clauses of the wrapper catch.
  \<open>LibraryError\<close> is whatever a collaborating library raises under its own class
  (\<^verbatim>\<open>ApiException\<close>, \<^verbatim>\<open>ConfigException\<close>, \<^verbatim>\<open>binascii.Error\<close>, \<^verbatim>\<open>JSONDecodeError\<close>,
  \<^verbatim>\<open>S3Error\<close>, ...).
\<close>

datatype exn =
    ValueError string
  | KeyError string
  | TypeError string
  | AttributeError string
  | LibraryError string

text \<open>
  Every call that leaves the wrapper for a collaborating service is recorded, in order.
\<close>

datatype call =
    Load_incluster_config
  | CoreV1Api
  | Read_namespaced_secret "string option" "string option"
  | DefaultAzureCredential
  | SecretClient string
  | Get_secret string string
  | Minio pyval pyval pyval bool bool
  | Bucket_exists string
  | Make_bucket string
  | Fput_object string string string
  | Fget_object string string string
  | List_objects string "string option"
  | Remove_object string string
  | Remove_bucket string

fun is_k8s_call :: "call \<Rightarrow> bool" where
  "is_k8s_call Load_incluster_config = True"
| "is_k8s_call CoreV1Api = True"
| "is_k8s_call (Read_namespaced_secret n ns) = True"
| "is_k8s_call c = False"

fun is_keyvault_call :: "call \<Rightarrow> bool" where
  "is_keyvault_call DefaultAzureCredential = True"
| "is_keyvault_call (SecretClient url) = True"
| "is_keyvault_call (Get_secret url n) = True"
| "is_keyvault_call c = False"

fun is_minio_ctor :: "call \<Rightarrow> bool" where
  "is_minio_ctor (Minio e a s sec cc) = True"
| "is_minio_ctor c = False"

fun is_make_bucket :: "call \<Rightarrow> bool" where
  "is_make_bucket (Make_bucket b) = True"
| "is_make_bucket c = False"

section \<open>Computations that may raise\<close>

text \<open>
  A method of the wrapper is a function from the state before it to its outcome (an
  exception, \<open>Inl\<close>, or a value, \<open>Inr\<close>) and the state after it. The state holds the calls
  made so far, and so survives an exception.
\<close>

type_synonym ('s, 'a) eff = "'s \<Rightarrow> (exn + 'a) \<times> 's"

definition ret :: "'a \<Rightarrow> ('s, 'a) eff" where
  "ret x = (\<lambda>s. (Inr x, s))"

definition raise :: "exn \<Rightarrow> ('s, 'a) eff" where
  "raise e = (\<lambda>s. (Inl e, s))"

definition and_then :: "('s, 'a) eff \<Rightarrow> ('a \<Rightarrow> ('s, 'b) eff) \<Rightarrow> ('s, 'b) eff" where
  "and_then m f = (\<lambda>s. case m s of (Inl e, s') \<Rightarrow> (Inl e, s') | (Inr x, s') \<Rightarrow> f x s')"

text \<open>\<^verbatim>\<open>try: m except Exception: h\<close>\<close>

definition try_except :: "('s, 'a) eff \<Rightarrow> (exn \<Rightarrow> ('s, 'a) eff) \<Rightarrow> ('s, 'a) eff" where
  "try_except m h = (\<lambda>s. case m s of (Inl e, s') \<Rightarrow> h e s' | (Inr x, s') \<Rightarrow> (Inr x, s'))"

text \<open>A pure library function (\<^verbatim>\<open>base64\<close>, \<^verbatim>\<open>json\<close>): its outcome, no call recorded.\<close>

definition lift :: "exn + 'a \<Rightarrow> ('s, 'a) eff" where
  "lift r = (\<lambda>s. (r, s))"

text \<open>A call to a credential service or to the client's constructor, with its outcome.\<close>

definition ext :: "call \<Rightarrow> exn + 'a \<Rightarrow> (call list, 'a) eff" where
  "ext c r = (\<lambda>t. (r, t @ [c]))"

section \<open>The collaborators of credential resolution\<close>

text \<open>
  \<^verbatim>\<open>V1Secret.data\<close> is a dictionary from keys to base64 text, or \<^verbatim>\<open>None\<close>.
\<close>

record v1_secret =
  data :: "(string \<rightharpoonup> string) option"

text \<open>
  The libraries the wrapper imports are not part of it: what each of their functions
  answers is a parameter. \<open>get_secret\<close> takes the vault's URL and the secret's name and
  answers the \<^verbatim>\<open>value\<close> of the secret, a string or \<^verbatim>\<open>None\<close>. \<open>minio_new\<close> is the
  constructor \<^verbatim>\<open>Minio(endpoint, access_key=, secret_key=, secure=, cert_check=)\<close>.
\<close>

record world =
  load_incluster_config :: "exn + unit"
  core_v1_api :: "exn + unit"
  read_namespaced_secret :: "string option \<Rightarrow> string option \<Rightarrow> exn + v1_secret"
  b64decode :: "string \<Rightarrow> exn + string"
  utf8_decode :: "string \<Rightarrow> exn + string"
  json_loads :: "string \<Rightarrow> exn + pyval"
  default_azure_credential :: "exn + unit"
  secret_client :: "string \<Rightarrow> exn + unit"
  get_secret :: "string \<Rightarrow> string \<Rightarrow> exn + string option"
  minio_new :: "pyval \<Rightarrow> pyval \<Rightarrow> pyval \<Rightarrow> bool \<Rightarrow> bool \<Rightarrow> exn + unit"

text \<open>\<^verbatim>\<open>d[k]\<close> on \<^verbatim>\<open>secret.data\<close>: a \<^verbatim>\<open>TypeError\<close> on \<^verbatim>\<open>None\<close>, a \<^verbatim>\<open>KeyError\<close> on a missing key.\<close>

definition subscript :: "(string \<rightharpoonup> string) option \<Rightarrow> string \<Rightarrow> exn + string" where
  "subscript d k =
     (case d of
        None \<Rightarrow> Inl (TypeError ''NoneType object is not subscriptable'')
      | Some m \<Rightarrow> (case m k of None \<Rightarrow> Inl (KeyError k) | Some v \<Rightarrow> Inr v))"

text \<open>
  \<^verbatim>\<open>x.get(k)\<close>: the value under \<open>k\<close>, \<^verbatim>\<open>None\<close> when a dictionary lacks the key, and an
  \<^verbatim>\<open>AttributeError\<close> when \<open>x\<close> is no dictionary.
\<close>

definition item_or_none :: "(string \<times> pyval) list \<Rightarrow> string \<Rightarrow> pyval" where
  "item_or_none kvs k = (case map_of kvs k of None \<Rightarrow> PNone | Some v \<Rightarrow> v)"

definition dict_get :: "pyval \<Rightarrow> string \<Rightarrow> exn + pyval" where
  "dict_get x k =
     (case x of
        PDict kvs \<Rightarrow> Inr (item_or_none kvs k)
      | _ \<Rightarrow> Inl (AttributeError ''get''))"

text \<open>\<^verbatim>\<open>json.loads(v)\<close> on the value of a key vault secret: a \<^verbatim>\<open>TypeError\<close> on \<^verbatim>\<open>None\<close>.\<close>

definition loads_value :: "world \<Rightarrow> string option \<Rightarrow> exn + pyval" where
  "loads_value w v =
     (case v of
        None \<Rightarrow> Inl (TypeError ''the JSON object must be str, bytes or bytearray, not NoneType'')
      | Some s \<Rightarrow> json_loads w s)"

type_synonym triple = "pyval \<times> pyval \<times> pyval"

definition none3 :: triple where
  "none3 = (PNone, PNone, PNone)"

section \<open>Credential resolution\<close>

text \<open>The last line of both lookups: \<^verbatim>\<open>return d.get('host'), d.get('id'), d.get('secret')\<close>.\<close>

definition credential_fields :: "pyval \<Rightarrow> ('s, triple) eff" where
  "credential_fields secret_data =
     and_then (lift (dict_get secret_data ''host'')) (\<lambda>h.
     and_then (lift (dict_get secret_data ''id'')) (\<lambda>i.
     and_then (lift (dict_get secret_data ''secret'')) (\<lambda>s.
     ret (h, i, s))))"

text \<open>The body of the \<^verbatim>\<open>try\<close> of \<^verbatim>\<open>_get_k8s_secret\<close>.\<close>

definition k8s_body :: "world \<Rightarrow> string option \<Rightarrow> string option \<Rightarrow> (call list, triple) eff" where
  "k8s_body w secret_name namespace =
     and_then (ext Load_incluster_config (load_incluster_config w)) (\<lambda>_.
     and_then (ext CoreV1Api (core_v1_api w)) (\<lambda>_.
     and_then (ext (Read_namespaced_secret secret_name namespace)
                 (read_namespaced_secret w secret_name namespace)) (\<lambda>secret.
     and_then (lift (subscript (data secret) ''minio'')) (\<lambda>payload.
     and_then (lift (b64decode w payload)) (\<lambda>raw.
     and_then (lift (utf8_decode w raw)) (\<lambda>txt.
     and_then (lift (json_loads w txt)) (\<lambda>secret_data.
     credential_fields secret_data)))))))"

definition get_k8s_secret :: "world \<Rightarrow> string option \<Rightarrow> string option \<Rightarrow> (call list, triple) eff" where
  "get_k8s_secret w secret_name namespace =
     try_except (k8s_body w secret_name namespace) (\<lambda>e. ret none3)"

definition vault_url :: "string option \<Rightarrow> string" where
  "vault_url keyvault_name = ''https://'' @ format_name keyvault_name @ ''.vault.azure.net''"

text \<open>The body of the \<^verbatim>\<open>try\<close> of \<^verbatim>\<open>_get_azure_keyvault_secret\<close>.\<close>

definition keyvault_body :: "world \<Rightarrow> string option \<Rightarrow> (call list, triple) eff" where
  "keyvault_body w keyvault_name =
     and_then (ext DefaultAzureCredential (default_azure_credential w)) (\<lambda>_.
     and_then (ext (SecretClient (vault_url keyvault_name))
                 (secret_client w (vault_url keyvault_name))) (\<lambda>_.
     and_then (ext (Get_secret (vault_url keyvault_name) ''minio-credentials'')
                 (get_secret w (vault_url keyvault_name) ''minio-credentials'')) (\<lambda>v.
     and_then (lift (loads_value w v)) (\<lambda>secret_data.
     credential_fields secret_data))))"

definition get_azure_keyvault_secret :: "world \<Rightarrow> string option \<Rightarrow> (call list, triple) eff" where
  "get_azure_keyvault_secret w keyvault_name =
     try_except (keyvault_body w keyvault_name) (\<lambda>e. ret none3)"

text \<open>\<^verbatim>\<open>not endpoint or not access_key or not secret_key\<close>\<close>

definition incomplete :: "triple \<Rightarrow> bool" where
  "incomplete c = (case c of (endpoint, access_key, secret_key) \<Rightarrow>
     \<not> truthy endpoint \<or> \<not> truthy access_key \<or> \<not> truthy secret_key)"

text \<open>The settings the storage client was built with, and the wrapper that holds it.\<close>

record minio_handle =
  endpoint :: pyval
  access_key :: pyval
  secret_key :: pyval
  secure :: bool
  cert_check :: bool

record wrapper =
  client :: minio_handle

definition credentials_error :: exn where
  "credentials_error = ValueError
     ''MinIO credentials could not be found in provided arguments, Kubernetes secrets, or Azure Key Vault.''"

text \<open>
  \<^verbatim>\<open>MinioClientWrapper.__init__\<close>. Its first argument is the triple
  \<^verbatim>\<open>(endpoint, access_key, secret_key)\<close>, which each of the first two statements either
  keeps or assigns anew as a whole.
\<close>

definition init ::
  "world \<Rightarrow> triple \<Rightarrow> string option \<Rightarrow> string option \<Rightarrow> string option \<Rightarrow> bool \<Rightarrow> bool
     \<Rightarrow> (call list, wrapper) eff" where
  "init w c0 secret_name namespace keyvault_name sec cc =
     and_then
       (if incomplete c0 then
          (if given secret_name \<and> given namespace
           then get_k8s_secret w secret_name namespace else ret none3)
        else ret c0) (\<lambda>c1.
     and_then
       (if incomplete c1 then
          (if given keyvault_name
           then get_azure_keyvault_secret w keyvault_name else ret none3)
        else ret c1) (\<lambda>c2.
     if incomplete c2 then raise credentials_error
     else (case c2 of (e, a, s) \<Rightarrow>
       and_then (ext (Minio e a s sec cc) (minio_new w e a s sec cc)) (\<lambda>_.
       ret \<lparr>client = \<lparr>endpoint = e, access_key = a, secret_key = s,
                       secure = sec, cert_check = cc\<rparr>\<rparr>))))"

text \<open>
  What a lookup answers and which calls it makes, read off a run of it from a fresh
  record of calls.
\<close>

definition k8s_yield :: "world \<Rightarrow> string option \<Rightarrow> string option \<Rightarrow> triple" where
  "k8s_yield w secret_name namespace =
     (case fst (get_k8s_secret w secret_name namespace []) of Inl e \<Rightarrow> none3 | Inr c \<Rightarrow> c)"

definition k8s_calls :: "world \<Rightarrow> string option \<Rightarrow> string option \<Rightarrow> call list" where
  "k8s_calls w secret_name namespace = snd (get_k8s_secret w secret_name namespace [])"

definition keyvault_yield :: "world \<Rightarrow> string option \<Rightarrow> triple" where
  "keyvault_yield w keyvault_name =
     (case fst (get_azure_keyvault_secret w keyvault_name []) of Inl e \<Rightarrow> none3 | Inr c \<Rightarrow> c)"

definition keyvault_calls :: "world \<Rightarrow> string option \<Rightarrow> call list" where
  "keyvault_calls w keyvault_name = snd (get_azure_keyvault_secret w keyvault_name [])"

text \<open>
  The outcome of \<^verbatim>\<open>self.client = Minio(...)\<close> on a triple, and the call it makes.
\<close>

definition build :: "world \<Rightarrow> triple \<Rightarrow> bool \<Rightarrow> bool \<Rightarrow> exn + wrapper" where
  "build w c sec cc = (case c of (e, a, s) \<Rightarrow>
     (case minio_new w e a s sec cc of
        Inl x \<Rightarrow> Inl x
      | Inr u \<Rightarrow> Inr \<lparr>client = \<lparr>endpoint = e, access_key = a, secret_key = s,
                                secure = sec, cert_check = cc\<rparr>\<rparr>))"

definition ctor_call :: "triple \<Rightarrow> bool \<Rightarrow> bool \<Rightarrow> call" where
  "ctor_call c sec cc = (case c of (e, a, s) \<Rightarrow> Minio e a s sec cc)"

subsection \<open>The resolution order as the specification words it\<close>

text \<open>
  The specification speaks of three sources in priority order, the first fully populated
  one winning. A source that is not configured yields nothing: the cluster source needs
  both \<^verbatim>\<open>secret_name\<close> and \<^verbatim>\<open>namespace\<close>, the key vault source needs \<^verbatim>\<open>keyvault_name\<close>.
\<close>

definition cluster_source :: "world \<Rightarrow> string option \<Rightarrow> string option \<Rightarrow> triple" where
  "cluster_source w secret_name namespace =
     (if given secret_name \<and> given namespace then k8s_yield w secret_name namespace else none3)"

definition keyvault_source :: "world \<Rightarrow> string option \<Rightarrow> triple" where
  "keyvault_source w keyvault_name =
     (if given keyvault_name then keyvault_yield w keyvault_name else none3)"

definition resolve_spec ::
  "world \<Rightarrow> triple \<Rightarrow> string option \<Rightarrow> string option \<Rightarrow> string option \<Rightarrow> triple option" where
  "resolve_spec w c0 secret_name namespace keyvault_name =
     find (\<lambda>c. \<not> incomplete c)
       [c0, cluster_source w secret_name namespace, keyvault_source w keyvault_name]"

section \<open>The storage facade\<close>

text \<open>
  An entry of a bucket listing, as the storage client yields it.
\<close>

record minio_object =
  object_name :: string
  size :: nat
  is_dir :: bool

text \<open>
  The storage client behind \<^verbatim>\<open>self.client\<close> is a parameter too: each of its methods takes the
  storage service from one state to the next and answers or raises. \<^verbatim>\<open>list_objects\<close>
  answers an iterator: the objects it yields and, if the iteration ends in an exception,
  that exception.
\<close>

record 's minio_api =
  api_bucket_exists :: "string \<Rightarrow> 's \<Rightarrow> (exn + bool) \<times> 's"
  api_make_bucket :: "string \<Rightarrow> 's \<Rightarrow> (exn + unit) \<times> 's"
  api_fput_object :: "string \<Rightarrow> string \<Rightarrow> string \<Rightarrow> 's \<Rightarrow> (exn + unit) \<times> 's"
  api_fget_object :: "string \<Rightarrow> string \<Rightarrow> string \<Rightarrow> 's \<Rightarrow> (exn + unit) \<times> 's"
  api_list_objects :: "string \<Rightarrow> string option \<Rightarrow> 's \<Rightarrow> (minio_object list \<times> exn option) \<times> 's"
  api_remove_object :: "string \<Rightarrow> string \<Rightarrow> 's \<Rightarrow> (exn + unit) \<times> 's"
  api_remove_bucket :: "string \<Rightarrow> 's \<Rightarrow> (exn + unit) \<times> 's"

text \<open>
  One call of a method of the storage client: the call is recorded, the service moves on,
  and the method's outcome is the outcome of the call.
\<close>

definition delegate :: "call \<Rightarrow> ('s \<Rightarrow> (exn + 'a) \<times> 's) \<Rightarrow> (call list \<times> 's, 'a) eff" where
  "delegate c f = (\<lambda>(t, s). case f s of (r, s') \<Rightarrow> (r, (t @ [c], s')))"

text \<open>\<^verbatim>\<open>[f(x) for x in it]\<close>: an exception of the iterator ends the comprehension.\<close>

definition comprehension :: "('a \<Rightarrow> 'b) \<Rightarrow> 'a list \<times> exn option \<Rightarrow> exn + 'b list" where
  "comprehension f it = (case it of (xs, None) \<Rightarrow> Inr (map f xs) | (xs, Some e) \<Rightarrow> Inl e)"

definition bucket_exists :: "'s minio_api \<Rightarrow> string \<Rightarrow> (call list \<times> 's, bool) eff" where
  "bucket_exists m bucket = delegate (Bucket_exists bucket) (api_bucket_exists m bucket)"

definition create_bucket :: "'s minio_api \<Rightarrow> string \<Rightarrow> (call list \<times> 's, unit) eff" where
  "create_bucket m bucket =
     and_then (bucket_exists m bucket) (\<lambda>found.
       if \<not> found then delegate (Make_bucket bucket) (api_make_bucket m bucket)
       else ret ())"

definition upload_file ::
  "'s minio_api \<Rightarrow> string \<Rightarrow> string \<Rightarrow> string \<Rightarrow> (call list \<times> 's, unit) eff" where
  "upload_file m bucket name path =
     delegate (Fput_object bucket name path) (api_fput_object m bucket name path)"

definition download_file ::
  "'s minio_api \<Rightarrow> string \<Rightarrow> string \<Rightarrow> string \<Rightarrow> (call list \<times> 's, unit) eff" where
  "download_file m bucket name path =
     delegate (Fget_object bucket name path) (api_fget_object m bucket name path)"

definition list_objects ::
  "'s minio_api \<Rightarrow> string \<Rightarrow> string option \<Rightarrow> (call list \<times> 's, string list) eff" where
  "list_objects m bucket pre =
     delegate (List_objects bucket pre)
       (\<lambda>s. case api_list_objects m bucket pre s of (it, s') \<Rightarrow>
          (comprehension object_name it, s'))"

definition delete_object :: "'s minio_api \<Rightarrow> string \<Rightarrow> string \<Rightarrow> (call list \<times> 's, unit) eff" where
  "delete_object m bucket name =
     delegate (Remove_object bucket name) (api_remove_object m bucket name)"

definition delete_bucket :: "'s minio_api \<Rightarrow> string \<Rightarrow> (call list \<times> 's, unit) eff" where
  "delete_bucket m bucket = delegate (Remove_bucket bucket) (api_remove_bucket m bucket)"

text \<open>Two calls of \<^verbatim>\<open>create_bucket\<close> in succession, and the creation calls among calls.\<close>

definition create_bucket_twice :: "'s minio_api \<Rightarrow> string \<Rightarrow> (call list \<times> 's, unit) eff" where
  "create_bucket_twice m bucket = and_then (create_bucket m bucket) (\<lambda>_. create_bucket m bucket)"

definition creations :: "call list \<Rightarrow> nat" where
  "creations t = length (filter is_make_bucket t)"

text \<open>A name matches a prefix; no prefix matches every name.\<close>

fun matches :: "string option \<Rightarrow> string \<Rightarrow> bool" where
  "matches None n = True"
| "matches (Some p) n = (take (length p) n = p)"

section \<open>Concrete collaborators\<close>

text \<open>
  A cluster with the secrets \<^verbatim>\<open>minio-secret\<close> (a full record) and \<^verbatim>\<open>partial-secret\<close> (a
  record with a host only) in the namespace \<^verbatim>\<open>default\<close>, and the key vault
  \<^verbatim>\<open>my-keyvault\<close>. The decoders know the three documents stored there.
\<close>

definition full_json :: string where
  \<open>full_json = ''{"host": "minio.local", "id": "AK", "secret": "SK"}''\<close>

definition full_b64 :: string where
  "full_b64 = ''eyJob3N0IjogIm1pbmlvLmxvY2FsIiwgImlkIjogIkFLIiwgInNlY3JldCI6ICJTSyJ9''"

definition partial_json :: string where
  \<open>partial_json = ''{"host": "minio.local"}''\<close>

definition partial_b64 :: string where
  "partial_b64 = ''eyJob3N0IjogIm1pbmlvLmxvY2FsIn0=''"

definition vault_json :: string where
  \<open>vault_json = ''{"host": "vault.local", "id": "VK", "secret": "VS"}''\<close>

definition demo_world :: world where
  "demo_world = \<lparr>
     load_incluster_config = Inr (),
     core_v1_api = Inr (),
     read_namespaced_secret = (\<lambda>n ns.
       if n = Some ''minio-secret'' \<and> ns = Some ''default''
         then Inr \<lparr>data = Some [''minio'' \<mapsto> full_b64]\<rparr>
       else if n = Some ''partial-secret'' \<and> ns = Some ''default''
         then Inr \<lparr>data = Some [''minio'' \<mapsto> partial_b64]\<rparr>
       else Inl (LibraryError ''ApiException: (404) Not Found'')),
     b64decode = (\<lambda>s.
       if s = full_b64 then Inr full_json
       else if s = partial_b64 then Inr partial_json
       else Inl (LibraryError ''binascii.Error: Incorrect padding'')),
     utf8_decode = Inr,
     json_loads = (\<lambda>s.
       if s = full_json
         then Inr (PDict [(''host'', PStr ''minio.local''), (''id'', PStr ''AK''),
                          (''secret'', PStr ''SK'')])
       else if s = partial_json then Inr (PDict [(''host'', PStr ''minio.local'')])
       else if s = vault_json
         then Inr (PDict [(''host'', PStr ''vault.local''), (''id'', PStr ''VK''),
                          (''secret'', PStr ''VS'')])
       else Inl (LibraryError ''JSONDecodeError'')),
     default_azure_credential = Inr (),
     secret_client = (\<lambda>url. Inr ()),
     get_secret = (\<lambda>url n.
       if url = ''https://my-keyvault.vault.azure.net'' \<and> n = ''minio-credentials''
         then Inr (Some vault_json)
       else Inl (LibraryError ''ResourceNotFoundError'')),
     minio_new = (\<lambda>e a s sec cc. Inr ())\<rparr>"

text \<open>
  A storage service held in memory: the buckets in order of creation, each with the names
  of its objects.
\<close>

type_synonym mem_store = "(string \<times> string list) list"

definition no_such_bucket :: exn where
  "no_such_bucket = LibraryError ''S3Error: NoSuchBucket''"

definition mem_client :: "mem_store minio_api" where
  "mem_client = \<lparr>
     api_bucket_exists = (\<lambda>b s. (Inr (map_of s b \<noteq> None), s)),
     api_make_bucket = (\<lambda>b s.
       if map_of s b \<noteq> None then (Inl (LibraryError ''S3Error: BucketAlreadyOwnedByYou''), s)
       else (Inr (), s @ [(b, [])])),
     api_fput_object = (\<lambda>b n path s.
       case map_of s b of
         None \<Rightarrow> (Inl no_such_bucket, s)
       | Some ns \<Rightarrow> (Inr (), map (\<lambda>(k, v). if k = b then (k, v @ [n]) else (k, v)) s)),
     api_fget_object = (\<lambda>b n path s.
       case map_of s b of
         None \<Rightarrow> (Inl no_such_bucket, s)
       | Some ns \<Rightarrow>
           (if n \<in> set ns then (Inr (), s) else (Inl (LibraryError ''S3Error: NoSuchKey''), s))),
     api_list_objects = (\<lambda>b pre s.
       case map_of s b of
         None \<Rightarrow> (([], Some no_such_bucket), s)
       | Some ns \<Rightarrow>
           ((map (\<lambda>n. \<lparr>object_name = n, size = 0, is_dir = False\<rparr>) (filter (matches pre) ns),
             None), s)),
     api_remove_object = (\<lambda>b n s.
       case map_of s b of
         None \<Rightarrow> (Inl no_such_bucket, s)
       | Some ns \<Rightarrow> (Inr (), map (\<lambda>(k, v). if k = b then (k, removeAll n v) else (k, v)) s)),
     api_remove_bucket = (\<lambda>b s.
       case map_of s b of
         None \<Rightarrow> (Inl no_such_bucket, s)
       | Some ns \<Rightarrow>
           (if ns = [] then (Inr (), filter (\<lambda>(k, v). k \<noteq> b) s)
            else (Inl (LibraryError ''S3Error: BucketNotEmpty''), s)))\<rparr>"

text \<open>
  Two more storage clients: one whose existence check is refused, one that may look but not
  create.
\<close>

definition access_denied :: exn where
  "access_denied = LibraryError ''S3Error: AccessDenied''"

definition failing_check :: "mem_store minio_api" where
  "failing_check = mem_client\<lparr>api_bucket_exists := (\<lambda>b s. (Inl access_denied, s))\<rparr>"

definition read_only :: "mem_store minio_api" where
  "read_only = mem_client\<lparr>api_make_bucket := (\<lambda>b s. (Inl access_denied, s))\<rparr>"

text \<open>
  A storage client that lists the way the real one does when it is not asked to recurse,
  which is how the facade calls it: an object with a \<^verbatim>\<open>/\<close> after the prefix is not
  yielded itself; one entry stands for its directory, the name up to and with that
  \<^verbatim>\<open>/\<close>. Objects come first, directories after them.
\<close>

definition shallow_entry :: "string \<Rightarrow> string \<Rightarrow> minio_object" where
  "shallow_entry p n =
     (let rest = drop (length p) n in
      if CHR ''/'' \<in> set rest
      then \<lparr>object_name = p @ takeWhile (\<lambda>c. c \<noteq> CHR ''/'') rest @ ''/'',
            size = 0, is_dir = True\<rparr>
      else \<lparr>object_name = n, size = 0, is_dir = False\<rparr>)"

definition shallow_listing :: "string option \<Rightarrow> string list \<Rightarrow> minio_object list" where
  "shallow_listing pre ns =
     (let es = map (shallow_entry (case pre of None \<Rightarrow> [] | Some p \<Rightarrow> p))
                 (filter (matches pre) ns)
      in filter (\<lambda>x. \<not> is_dir x) es @ remdups (filter is_dir es))"

definition shallow_client :: "mem_store minio_api" where
  "shallow_client = mem_client\<lparr>api_list_objects := (\<lambda>b pre s.
     case map_of s b of
       None \<Rightarrow> (([], Some no_such_bucket), s)
     | Some ns \<Rightarrow> ((shallow_listing pre ns, None), s))\<rparr>"

section \<open>How the lookups and the constructor run\<close>

lemmas eff_defs = ret_def raise_def and_then_def try_except_def lift_def ext_def

lemma credential_fields_run:
  "credential_fields d t =
     (case dict_get d ''host'' of Inl e \<Rightarrow> (Inl e, t) | Inr h \<Rightarrow>
     (case dict_get d ''id'' of Inl e \<Rightarrow> (Inl e, t) | Inr i \<Rightarrow>
     (case dict_get d ''secret'' of Inl e \<Rightarrow> (Inl e, t) | Inr s \<Rightarrow> (Inr (h, i, s), t))))"
  by (simp add: credential_fields_def eff_defs split: sum.splits)

text \<open>
  The body of a lookup adds calls of its own service only, and neither they nor its
  outcome depend on the calls made before.
\<close>

lemma k8s_body_trace:
  "\<exists>t'. snd (k8s_body w sn ns t) = t @ t' \<and> list_all is_k8s_call t'
        \<and> snd (k8s_body w sn ns []) = t'
        \<and> fst (k8s_body w sn ns t) = fst (k8s_body w sn ns [])"
  by (simp add: k8s_body_def eff_defs credential_fields_run split: sum.splits)

lemma keyvault_body_trace:
  "\<exists>t'. snd (keyvault_body w kv t) = t @ t' \<and> list_all is_keyvault_call t'
        \<and> snd (keyvault_body w kv []) = t'
        \<and> fst (keyvault_body w kv t) = fst (keyvault_body w kv [])"
  by (simp add: keyvault_body_def eff_defs credential_fields_run split: sum.splits)

text \<open>Both lookups return: whatever happens inside, the caller gets a triple.\<close>

lemma get_k8s_secret_run:
  "get_k8s_secret w sn ns t = (Inr (k8s_yield w sn ns), t @ k8s_calls w sn ns)"
  using k8s_body_trace [of w sn ns t]
  by (auto simp add: get_k8s_secret_def k8s_yield_def k8s_calls_def try_except_def ret_def
      split: sum.splits prod.splits)

lemma k8s_calls_only: "list_all is_k8s_call (k8s_calls w sn ns)"
  using k8s_body_trace [of w sn ns "[]"]
  by (auto simp add: get_k8s_secret_def k8s_calls_def try_except_def ret_def
      split: sum.splits prod.splits)

lemma get_azure_keyvault_secret_run:
  "get_azure_keyvault_secret w kv t = (Inr (keyvault_yield w kv), t @ keyvault_calls w kv)"
  using keyvault_body_trace [of w kv t]
  by (auto simp add: get_azure_keyvault_secret_def keyvault_yield_def keyvault_calls_def
      try_except_def ret_def split: sum.splits prod.splits)

lemma keyvault_calls_only: "list_all is_keyvault_call (keyvault_calls w kv)"
  using keyvault_body_trace [of w kv "[]"]
  by (auto simp add: get_azure_keyvault_secret_def keyvault_calls_def try_except_def ret_def
      split: sum.splits prod.splits)

lemma incomplete_none3: "incomplete none3"
  by (simp add: incomplete_def none3_def)

text \<open>
  The constructor, case by case: which source's triple reaches \<^verbatim>\<open>Minio(...)\<close>, and the
  calls made on the way.
\<close>

lemma init_run:
  "init w c0 sn ns kv sec cc [] =
    (if \<not> incomplete c0 then (build w c0 sec cc, [ctor_call c0 sec cc])
     else if \<not> incomplete (cluster_source w sn ns)
       then (build w (k8s_yield w sn ns) sec cc,
             k8s_calls w sn ns @ [ctor_call (k8s_yield w sn ns) sec cc])
     else if \<not> incomplete (keyvault_source w kv)
       then (build w (keyvault_yield w kv) sec cc,
             (if given sn \<and> given ns then k8s_calls w sn ns else []) @ keyvault_calls w kv
               @ [ctor_call (keyvault_yield w kv) sec cc])
     else (Inl credentials_error,
             (if given sn \<and> given ns then k8s_calls w sn ns else [])
              @ (if given kv then keyvault_calls w kv else [])))"
  by (auto simp add: init_def and_then_def ret_def raise_def ext_def get_k8s_secret_run
      get_azure_keyvault_secret_run cluster_source_def keyvault_source_def incomplete_none3
      build_def ctor_call_def split: sum.splits prod.splits)

text \<open>Calls of one service are calls of no other.\<close>

lemma k8s_not_other:
  "list_all is_k8s_call t \<Longrightarrow>
     filter is_minio_ctor t = [] \<and> \<not> list_ex is_keyvault_call t \<and> \<not> list_ex is_minio_ctor t"
  by (induction t) (auto elim: is_k8s_call.elims)

lemma keyvault_not_other:
  "list_all is_keyvault_call t \<Longrightarrow>
     filter is_minio_ctor t = [] \<and> \<not> list_ex is_k8s_call t \<and> \<not> list_ex is_minio_ctor t"
  by (induction t) (auto elim: is_keyvault_call.elims)

lemma ctor_call_kind:
  "is_minio_ctor (ctor_call c sec cc) \<and> \<not> is_k8s_call (ctor_call c sec cc)
     \<and> \<not> is_keyvault_call (ctor_call c sec cc)"
  by (simp add: ctor_call_def split: prod.splits)

lemmas calls_kinds =
  k8s_not_other [OF k8s_calls_only] keyvault_not_other [OF keyvault_calls_only] ctor_call_kind

text \<open>The equations that evaluate a run against the concrete collaborators.\<close>

lemmas demo_defs =
  demo_world_def full_b64_def full_json_def partial_b64_def partial_json_def vault_json_def
  get_k8s_secret_def k8s_body_def get_azure_keyvault_secret_def keyvault_body_def eff_defs
  credential_fields_def subscript_def dict_get_def item_or_none_def loads_value_def
  vault_url_def k8s_yield_def k8s_calls_def keyvault_yield_def keyvault_calls_def
  cluster_source_def keyvault_source_def incomplete_def none3_def build_def ctor_call_def
  credentials_error_def resolve_spec_def

section \<open>Credential resolution: the claims\<close>

text \<open>
  Claim C1. Resolution short-circuits by priority. The outcome of the constructor is the
  outcome of building the storage client on the triple of the first source, in the order
  explicit arguments, cluster secret, key vault, that yields a complete triple, and the
  configuration error if there is none; the client's constructor is called with exactly
  that triple, once, and is not called otherwise. When the explicit arguments are complete
  the constructor call is the only call made: neither lookup is invoked. When the cluster
  secret is the first complete source, the key vault is never called.
\<close>

theorem init_first_complete_source_wins:
  "fst (init w c0 sn ns kv sec cc []) =
     (case resolve_spec w c0 sn ns kv of
        None \<Rightarrow> Inl credentials_error | Some c \<Rightarrow> build w c sec cc)
   \<and> filter is_minio_ctor (snd (init w c0 sn ns kv sec cc [])) =
     (case resolve_spec w c0 sn ns kv of None \<Rightarrow> [] | Some c \<Rightarrow> [ctor_call c sec cc])
   \<and> (\<not> incomplete c0 \<longrightarrow>
        snd (init w c0 sn ns kv sec cc []) = [ctor_call c0 sec cc]
        \<and> \<not> list_ex is_k8s_call (snd (init w c0 sn ns kv sec cc []))
        \<and> \<not> list_ex is_keyvault_call (snd (init w c0 sn ns kv sec cc [])))
   \<and> (incomplete c0 \<and> \<not> incomplete (cluster_source w sn ns) \<longrightarrow>
        snd (init w c0 sn ns kv sec cc []) =
          k8s_calls w sn ns @ [ctor_call (cluster_source w sn ns) sec cc]
        \<and> \<not> list_ex is_keyvault_call (snd (init w c0 sn ns kv sec cc [])))"
  by (auto simp add: init_run resolve_spec_def cluster_source_def keyvault_source_def
      incomplete_none3 calls_kinds)

theorem init_first_complete_source_wins_witness:
  "incomplete none3
   \<and> \<not> incomplete (cluster_source demo_world (Some ''minio-secret'') (Some ''default''))
   \<and> init demo_world none3 (Some ''minio-secret'') (Some ''default'') (Some ''my-keyvault'')
        True False [] =
       (Inr \<lparr>client = \<lparr>endpoint = PStr ''minio.local'', access_key = PStr ''AK'',
                        secret_key = PStr ''SK'', secure = True, cert_check = False\<rparr>\<rparr>,
        [Load_incluster_config, CoreV1Api,
         Read_namespaced_secret (Some ''minio-secret'') (Some ''default''),
         Minio (PStr ''minio.local'') (PStr ''AK'') (PStr ''SK'') True False])
   \<and> \<not> incomplete (PStr ''play.min.io'', PStr ''key'', PStr ''secret'')
   \<and> snd (init demo_world (PStr ''play.min.io'', PStr ''key'', PStr ''secret'')
            (Some ''minio-secret'') (Some ''default'') (Some ''my-keyvault'') True True []) =
       [Minio (PStr ''play.min.io'') (PStr ''key'') (PStr ''secret'') True True]"
  using init_first_complete_source_wins [of demo_world none3 "Some ''minio-secret''"
      "Some ''default''" "Some ''my-keyvault''" True False]
    init_first_complete_source_wins [of demo_world
      "(PStr ''play.min.io'', PStr ''key'', PStr ''secret'')" "Some ''minio-secret''"
      "Some ''default''" "Some ''my-keyvault''" True True]
  by (simp add: demo_defs init_def)

text \<open>
  Claim C2. When no source yields a complete triple, the constructor raises the
  \<^verbatim>\<open>ValueError\<close> whose message names the three sources, and the storage client's
  constructor has not been called.
\<close>

theorem init_all_sources_exhausted:
  "incomplete c0 \<Longrightarrow> incomplete (cluster_source w sn ns) \<Longrightarrow>
   incomplete (keyvault_source w kv) \<Longrightarrow>
     fst (init w c0 sn ns kv sec cc []) = Inl (ValueError
       ''MinIO credentials could not be found in provided arguments, Kubernetes secrets, or Azure Key Vault.'')
     \<and> \<not> list_ex is_minio_ctor (snd (init w c0 sn ns kv sec cc []))"
  by (auto simp add: init_run credentials_error_def calls_kinds)

theorem init_all_sources_exhausted_witness:
  "incomplete (PStr ''play.min.io'', PNone, PStr [])
   \<and> incomplete (cluster_source demo_world (Some ''partial-secret'') (Some ''default''))
   \<and> incomplete (keyvault_source demo_world (Some ''other-vault''))
   \<and> init demo_world (PStr ''play.min.io'', PNone, PStr []) (Some ''partial-secret'')
        (Some ''default'') (Some ''other-vault'') True True [] =
       (Inl (ValueError
         ''MinIO credentials could not be found in provided arguments, Kubernetes secrets, or Azure Key Vault.''),
        [Load_incluster_config, CoreV1Api,
         Read_namespaced_secret (Some ''partial-secret'') (Some ''default''),
         DefaultAzureCredential, SecretClient ''https://other-vault.vault.azure.net'',
         Get_secret ''https://other-vault.vault.azure.net'' ''minio-credentials''])
   \<and> init demo_world none3 None None None True True [] =
       (Inl (ValueError
         ''MinIO credentials could not be found in provided arguments, Kubernetes secrets, or Azure Key Vault.''),
        [])"
  using init_all_sources_exhausted [of "(PStr ''play.min.io'', PNone, PStr [])" demo_world
      "Some ''partial-secret''" "Some ''default''" "Some ''other-vault''" True True]
  by (simp add: demo_defs init_def)

text \<open>
  Where the body of the cluster lookup raises: at the cluster authentication, at the
  construction of the API object, at the secret read, and after it at the subscript
  \<^verbatim>\<open>secret.data['minio']\<close>, at the base64 or UTF-8 decoding, at the JSON parse and at the
  first \<^verbatim>\<open>.get\<close>. The calls made up to there stay recorded.
\<close>

lemma k8s_body_raises:
  "(load_incluster_config w = Inl e \<longrightarrow>
      k8s_body w sn ns t = (Inl e, t @ [Load_incluster_config]))
   \<and> (load_incluster_config w = Inr () \<and> core_v1_api w = Inl e \<longrightarrow>
      k8s_body w sn ns t = (Inl e, t @ [Load_incluster_config, CoreV1Api]))
   \<and> (load_incluster_config w = Inr () \<and> core_v1_api w = Inr ()
        \<and> read_namespaced_secret w sn ns = Inl e \<longrightarrow>
      k8s_body w sn ns t =
        (Inl e, t @ [Load_incluster_config, CoreV1Api, Read_namespaced_secret sn ns]))
   \<and> (load_incluster_config w = Inr () \<and> core_v1_api w = Inr ()
        \<and> read_namespaced_secret w sn ns = Inr secret
        \<and> (subscript (data secret) ''minio'' = Inl e
           \<or> (\<exists>payload. subscript (data secret) ''minio'' = Inr payload
                \<and> (b64decode w payload = Inl e
                   \<or> (\<exists>raw. b64decode w payload = Inr raw
                        \<and> (utf8_decode w raw = Inl e
                           \<or> (\<exists>txt. utf8_decode w raw = Inr txt
                                \<and> (json_loads w txt = Inl e
                                   \<or> (\<exists>v. json_loads w txt = Inr v
                                         \<and> dict_get v ''host'' = Inl e)))))))) \<longrightarrow>
      k8s_body w sn ns t =
        (Inl e, t @ [Load_incluster_config, CoreV1Api, Read_namespaced_secret sn ns]))"
  by (auto simp add: k8s_body_def eff_defs credential_fields_run dict_get_def split: sum.splits pyval.splits)

text \<open>The same for the body of the key vault lookup.\<close>

lemma keyvault_body_raises:
  "(default_azure_credential w = Inl e \<longrightarrow>
      keyvault_body w kv t = (Inl e, t @ [DefaultAzureCredential]))
   \<and> (default_azure_credential w = Inr () \<and> secret_client w (vault_url kv) = Inl e \<longrightarrow>
      keyvault_body w kv t = (Inl e, t @ [DefaultAzureCredential, SecretClient (vault_url kv)]))
   \<and> (default_azure_credential w = Inr () \<and> secret_client w (vault_url kv) = Inr ()
        \<and> (get_secret w (vault_url kv) ''minio-credentials'' = Inl e
           \<or> (\<exists>v. get_secret w (vault_url kv) ''minio-credentials'' = Inr v
                \<and> (loads_value w v = Inl e
                   \<or> (\<exists>d. loads_value w v = Inr d \<and> dict_get d ''host'' = Inl e)))) \<longrightarrow>
      keyvault_body w kv t =
        (Inl e, t @ [DefaultAzureCredential, SecretClient (vault_url kv),
                     Get_secret (vault_url kv) ''minio-credentials'']))"
  by (auto simp add: keyvault_body_def eff_defs credential_fields_run dict_get_def split: sum.splits pyval.splits)

text \<open>A lookup whose body raises yields the triple of \<^verbatim>\<open>None\<close>s.\<close>

lemma k8s_raise_yield: "fst (k8s_body w sn ns []) = Inl e \<Longrightarrow> k8s_yield w sn ns = none3"
  by (auto simp add: k8s_yield_def get_k8s_secret_def try_except_def ret_def split: prod.splits sum.splits)

lemma keyvault_raise_yield: "fst (keyvault_body w kv []) = Inl e \<Longrightarrow> keyvault_yield w kv = none3"
  by (auto simp add: keyvault_yield_def get_azure_keyvault_secret_def try_except_def ret_def split: prod.splits sum.splits)

text \<open>
  Claim C3. An exception raised at any stage of the body of the cluster lookup is swallowed
  there: the lookup returns \<^verbatim>\<open>(None, None, None)\<close>, and so does the key vault lookup on an
  exception of its own body. In the constructor, after an exception in the cluster lookup,
  resolution goes on to the key vault: the outcome is the client built on the key vault's
  triple when that is complete and the configuration error otherwise, never the exception
  of the lookup. After an exception in the key vault lookup the constructor raises the
  configuration error.
\<close>

theorem lookup_exceptions_swallowed:
  "(k8s_body w sn ns t = (Inl e, t') \<longrightarrow> get_k8s_secret w sn ns t = (Inr none3, t'))
   \<and> (keyvault_body w kv t = (Inl e, t') \<longrightarrow>
        get_azure_keyvault_secret w kv t = (Inr none3, t'))
   \<and> (incomplete c0 \<and> given sn \<and> given ns \<and> fst (k8s_body w sn ns []) = Inl e \<longrightarrow>
        init w c0 sn ns kv sec cc [] =
          (if given kv \<and> \<not> incomplete (keyvault_yield w kv)
           then (build w (keyvault_yield w kv) sec cc,
                 k8s_calls w sn ns @ keyvault_calls w kv
                   @ [ctor_call (keyvault_yield w kv) sec cc])
           else (Inl credentials_error,
                 k8s_calls w sn ns @ (if given kv then keyvault_calls w kv else []))))
   \<and> (incomplete c0 \<and> incomplete (cluster_source w sn ns) \<and> given kv
        \<and> fst (keyvault_body w kv []) = Inl e \<longrightarrow>
        init w c0 sn ns kv sec cc [] =
          (Inl credentials_error,
           (if given sn \<and> given ns then k8s_calls w sn ns else []) @ keyvault_calls w kv))"
  by (auto simp add: init_run cluster_source_def keyvault_source_def incomplete_none3 k8s_raise_yield keyvault_raise_yield
      get_k8s_secret_def get_azure_keyvault_secret_def try_except_def ret_def)

theorem lookup_exceptions_swallowed_witness:
  "k8s_body demo_world (Some ''missing'') (Some ''default'') [] =
     (Inl (LibraryError ''ApiException: (404) Not Found''),
      [Load_incluster_config, CoreV1Api, Read_namespaced_secret (Some ''missing'') (Some ''default'')])
   \<and> get_k8s_secret demo_world (Some ''missing'') (Some ''default'') [] =
     (Inr none3,
      [Load_incluster_config, CoreV1Api, Read_namespaced_secret (Some ''missing'') (Some ''default'')])
   \<and> init demo_world none3 (Some ''missing'') (Some ''default'') (Some ''my-keyvault'') True True [] =
     (Inr \<lparr>client = \<lparr>endpoint = PStr ''vault.local'', access_key = PStr ''VK'',
                      secret_key = PStr ''VS'', secure = True, cert_check = True\<rparr>\<rparr>,
      [Load_incluster_config, CoreV1Api, Read_namespaced_secret (Some ''missing'') (Some ''default''),
       DefaultAzureCredential, SecretClient ''https://my-keyvault.vault.azure.net'',
       Get_secret ''https://my-keyvault.vault.azure.net'' ''minio-credentials'',
       Minio (PStr ''vault.local'') (PStr ''VK'') (PStr ''VS'') True True])
   \<and> keyvault_body demo_world (Some ''other-vault'') [] =
     (Inl (LibraryError ''ResourceNotFoundError''),
      [DefaultAzureCredential, SecretClient ''https://other-vault.vault.azure.net'',
       Get_secret ''https://other-vault.vault.azure.net'' ''minio-credentials''])
   \<and> get_azure_keyvault_secret demo_world (Some ''other-vault'') [] =
     (Inr none3,
      [DefaultAzureCredential, SecretClient ''https://other-vault.vault.azure.net'',
       Get_secret ''https://other-vault.vault.azure.net'' ''minio-credentials''])
   \<and> fst (init demo_world none3 None None (Some ''other-vault'') True True []) =
       Inl credentials_error"
  using lookup_exceptions_swallowed [where w = demo_world and sn = "Some ''missing''"
      and ns = "Some ''default''" and t = "[]" and kv = "Some ''my-keyvault''"
      and e = "LibraryError ''ApiException: (404) Not Found''"
      and t' = "[Load_incluster_config, CoreV1Api,
                 Read_namespaced_secret (Some ''missing'') (Some ''default'')]"
      and ?c0.0 = none3 and sec = True and cc = True]
    lookup_exceptions_swallowed [where w = demo_world and sn = None and ns = None
      and t = "[]" and kv = "Some ''other-vault''"
      and e = "LibraryError ''ResourceNotFoundError''"
      and t' = "[DefaultAzureCredential, SecretClient ''https://other-vault.vault.azure.net'',
                 Get_secret ''https://other-vault.vault.azure.net'' ''minio-credentials'']"
      and ?c0.0 = none3 and sec = True and cc = True]
  by (simp add: demo_defs init_def)


text \<open>A lookup that is run does call its service.\<close>

lemma k8s_calls_start: "\<exists>r. k8s_calls w sn ns = Load_incluster_config # r"
  by (simp add: k8s_calls_def get_k8s_secret_def k8s_body_def eff_defs credential_fields_run
      split: sum.splits)

lemma keyvault_calls_start: "\<exists>r. keyvault_calls w kv = DefaultAzureCredential # r"
  by (simp add: keyvault_calls_def get_azure_keyvault_secret_def keyvault_body_def eff_defs
      credential_fields_run split: sum.splits)

lemma k8s_consulted: "list_ex is_k8s_call (k8s_calls w sn ns)"
  using k8s_calls_start [of w sn ns] by auto

lemma keyvault_consulted: "list_ex is_keyvault_call (keyvault_calls w kv)"
  using keyvault_calls_start [of w kv] by auto

lemma no_ctor_among_k8s: "Minio e a s sec cc \<notin> set (k8s_calls w sn ns)"
  using k8s_calls_only [of w sn ns] by (auto simp add: list_all_iff)

lemma no_ctor_among_keyvault: "Minio e a s sec cc \<notin> set (keyvault_calls w kv)"
  using keyvault_calls_only [of w kv] by (auto simp add: list_all_iff)

text \<open>
  Claim C5. Partial credential sets are neither used nor merged. Incomplete explicit
  arguments count as none at all, and the cluster lookup follows when it is configured.
  When the explicit arguments and the cluster source are both incomplete, the outcome
  rests on the key vault alone, which is called when configured. The triple the storage
  client is built with is complete and is, as a whole, the triple of one of the three
  sources.
\<close>

theorem credentials_from_one_source:
  "(incomplete c0 \<longrightarrow>
      init w c0 sn ns kv sec cc [] = init w none3 sn ns kv sec cc [])
   \<and> (incomplete c0 \<and> given sn \<and> given ns \<longrightarrow>
      list_ex is_k8s_call (snd (init w c0 sn ns kv sec cc [])))
   \<and> (incomplete c0 \<and> incomplete (cluster_source w sn ns) \<longrightarrow>
      fst (init w c0 sn ns kv sec cc []) =
        (if incomplete (keyvault_source w kv) then Inl credentials_error
         else build w (keyvault_source w kv) sec cc))
   \<and> (incomplete c0 \<and> incomplete (cluster_source w sn ns) \<and> given kv \<longrightarrow>
      list_ex is_keyvault_call (snd (init w c0 sn ns kv sec cc [])))
   \<and> (\<forall>e a s sec' cc'. Minio e a s sec' cc' \<in> set (snd (init w c0 sn ns kv sec cc [])) \<longrightarrow>
        \<not> incomplete (e, a, s)
        \<and> ((e, a, s) = c0 \<or> (e, a, s) = cluster_source w sn ns
             \<or> (e, a, s) = keyvault_source w kv))
   \<and> (\<forall>h. fst (init w c0 sn ns kv sec cc []) = Inr h \<longrightarrow>
        (endpoint (client h), access_key (client h), secret_key (client h))
          \<in> {c0, cluster_source w sn ns, keyvault_source w kv})"
proof -
  have a: "incomplete c0 \<longrightarrow> init w c0 sn ns kv sec cc [] = init w none3 sn ns kv sec cc []"
    by (simp add: init_run incomplete_none3)
  have b: "incomplete c0 \<and> given sn \<and> given ns \<longrightarrow>
      list_ex is_k8s_call (snd (init w c0 sn ns kv sec cc []))"
    by (simp add: init_run cluster_source_def k8s_consulted)
  have c: "incomplete c0 \<and> incomplete (cluster_source w sn ns) \<longrightarrow>
      fst (init w c0 sn ns kv sec cc []) =
        (if incomplete (keyvault_source w kv) then Inl credentials_error
         else build w (keyvault_source w kv) sec cc)"
    by (auto simp add: init_run keyvault_source_def incomplete_none3)
  have d: "incomplete c0 \<and> incomplete (cluster_source w sn ns) \<and> given kv \<longrightarrow>
      list_ex is_keyvault_call (snd (init w c0 sn ns kv sec cc []))"
    by (simp add: init_run keyvault_consulted)
  have e: "\<forall>e a s sec' cc'. Minio e a s sec' cc' \<in> set (snd (init w c0 sn ns kv sec cc [])) \<longrightarrow>
        \<not> incomplete (e, a, s)
        \<and> ((e, a, s) = c0 \<or> (e, a, s) = cluster_source w sn ns
             \<or> (e, a, s) = keyvault_source w kv)"
    by (auto simp add: init_run cluster_source_def keyvault_source_def incomplete_none3
        no_ctor_among_k8s no_ctor_among_keyvault ctor_call_def split: if_splits prod.splits)
  have f: "\<forall>h. fst (init w c0 sn ns kv sec cc []) = Inr h \<longrightarrow>
        (endpoint (client h), access_key (client h), secret_key (client h))
          \<in> {c0, cluster_source w sn ns, keyvault_source w kv}"
    by (auto simp add: init_run cluster_source_def keyvault_source_def incomplete_none3
        build_def credentials_error_def split: if_splits prod.splits sum.splits)
  from a b c d e f show ?thesis by blast
qed

theorem credentials_from_one_source_witness:
  "incomplete (PStr ''play.min.io'', PStr ''key'', PNone)
   \<and> incomplete (cluster_source demo_world (Some ''partial-secret'') (Some ''default''))
   \<and> cluster_source demo_world (Some ''partial-secret'') (Some ''default'') =
       (PStr ''minio.local'', PNone, PNone)
   \<and> init demo_world (PStr ''play.min.io'', PStr ''key'', PNone) (Some ''partial-secret'')
        (Some ''default'') (Some ''my-keyvault'') True True [] =
       (Inr \<lparr>client = \<lparr>endpoint = PStr ''vault.local'', access_key = PStr ''VK'',
                        secret_key = PStr ''VS'', secure = True, cert_check = True\<rparr>\<rparr>,
        [Load_incluster_config, CoreV1Api,
         Read_namespaced_secret (Some ''partial-secret'') (Some ''default''),
         DefaultAzureCredential, SecretClient ''https://my-keyvault.vault.azure.net'',
         Get_secret ''https://my-keyvault.vault.azure.net'' ''minio-credentials'',
         Minio (PStr ''vault.local'') (PStr ''VK'') (PStr ''VS'') True True])
   \<and> (PStr ''vault.local'', PStr ''VK'', PStr ''VS'') =
       keyvault_source demo_world (Some ''my-keyvault'')"
  using credentials_from_one_source [of "(PStr ''play.min.io'', PStr ''key'', PNone)" demo_world
      "Some ''partial-secret''" "Some ''default''" "Some ''my-keyvault''" True True]
  by (simp add: demo_defs init_def)

text \<open>
  Claim C9. Cluster calls are made only when \<^verbatim>\<open>secret_name\<close> and \<^verbatim>\<open>namespace\<close> are both
  given and non-empty (and the explicit arguments incomplete); otherwise no cluster call
  is made and the constructor runs as with both absent. Key vault calls are made only when
  \<^verbatim>\<open>keyvault_name\<close> is given and non-empty (and the sources before it incomplete);
  otherwise no key vault call is made and the constructor runs as with it absent.
\<close>

theorem sources_consulted_only_when_configured:
  "(list_ex is_k8s_call (snd (init w c0 sn ns kv sec cc [])) \<longrightarrow>
      given sn \<and> given ns \<and> incomplete c0)
   \<and> (\<not> (given sn \<and> given ns) \<longrightarrow>
      init w c0 sn ns kv sec cc [] = init w c0 None None kv sec cc []
      \<and> \<not> list_ex is_k8s_call (snd (init w c0 sn ns kv sec cc [])))
   \<and> (list_ex is_keyvault_call (snd (init w c0 sn ns kv sec cc [])) \<longrightarrow>
      given kv \<and> incomplete c0 \<and> incomplete (cluster_source w sn ns))
   \<and> (\<not> given kv \<longrightarrow>
      init w c0 sn ns kv sec cc [] = init w c0 sn ns None sec cc []
      \<and> \<not> list_ex is_keyvault_call (snd (init w c0 sn ns kv sec cc [])))"
proof -
  have a: "list_ex is_k8s_call (snd (init w c0 sn ns kv sec cc [])) \<longrightarrow>
      given sn \<and> given ns \<and> incomplete c0"
    by (auto simp add: init_run calls_kinds cluster_source_def incomplete_none3 split: if_splits)
  have b: "\<not> (given sn \<and> given ns) \<longrightarrow>
      init w c0 sn ns kv sec cc [] = init w c0 None None kv sec cc []"
    by (auto simp add: init_run cluster_source_def incomplete_none3)
  have c: "list_ex is_keyvault_call (snd (init w c0 sn ns kv sec cc [])) \<longrightarrow>
      given kv \<and> incomplete c0 \<and> incomplete (cluster_source w sn ns)"
    by (auto simp add: init_run calls_kinds cluster_source_def keyvault_source_def
        incomplete_none3 split: if_splits)
  have d: "\<not> given kv \<longrightarrow>
      init w c0 sn ns kv sec cc [] = init w c0 sn ns None sec cc []"
    by (auto simp add: init_run keyvault_source_def incomplete_none3)
  from a b c d show ?thesis by blast
qed

theorem sources_consulted_only_when_configured_witness:
  "\<not> (given (Some ''minio-secret'') \<and> given None)
   \<and> init demo_world none3 (Some ''minio-secret'') None (Some ''my-keyvault'') True True [] =
       (Inr \<lparr>client = \<lparr>endpoint = PStr ''vault.local'', access_key = PStr ''VK'',
                        secret_key = PStr ''VS'', secure = True, cert_check = True\<rparr>\<rparr>,
        [DefaultAzureCredential, SecretClient ''https://my-keyvault.vault.azure.net'',
         Get_secret ''https://my-keyvault.vault.azure.net'' ''minio-credentials'',
         Minio (PStr ''vault.local'') (PStr ''VK'') (PStr ''VS'') True True])
   \<and> \<not> (given (Some []) \<and> given (Some ''default''))
   \<and> \<not> given (Some [])
   \<and> init demo_world none3 (Some []) (Some ''default'') (Some []) True True [] =
       (Inl credentials_error, [])
   \<and> init demo_world none3 (Some []) (Some ''default'') (Some []) True True [] =
       init demo_world none3 None None None True True []"
  using sources_consulted_only_when_configured [of demo_world none3 "Some ''minio-secret''" None
      "Some ''my-keyvault''" True True]
    sources_consulted_only_when_configured [of demo_world none3 "Some []" "Some ''default''"
      "Some []" True True]
  by (simp add: demo_defs init_def)

text \<open>The lookups when every stage succeeds and the document is a JSON object.\<close>

lemma get_k8s_secret_success:
  "load_incluster_config w = Inr () \<Longrightarrow> core_v1_api w = Inr () \<Longrightarrow>
   read_namespaced_secret w sn ns = Inr secret \<Longrightarrow> data secret = Some d \<Longrightarrow>
   d ''minio'' = Some payload \<Longrightarrow> b64decode w payload = Inr raw \<Longrightarrow>
   utf8_decode w raw = Inr doc \<Longrightarrow> json_loads w doc = Inr (PDict kvs) \<Longrightarrow>
     get_k8s_secret w sn ns t =
       (Inr (item_or_none kvs ''host'', item_or_none kvs ''id'', item_or_none kvs ''secret''),
        t @ [Load_incluster_config, CoreV1Api, Read_namespaced_secret sn ns])"
  by (simp add: get_k8s_secret_def k8s_body_def eff_defs credential_fields_def subscript_def
      dict_get_def)

lemma get_azure_keyvault_secret_success:
  "default_azure_credential w = Inr () \<Longrightarrow>
   secret_client w (''https://'' @ format_name kv @ ''.vault.azure.net'') = Inr () \<Longrightarrow>
   get_secret w (''https://'' @ format_name kv @ ''.vault.azure.net'') ''minio-credentials''
     = Inr (Some doc) \<Longrightarrow>
   json_loads w doc = Inr (PDict kvs) \<Longrightarrow>
     get_azure_keyvault_secret w kv t =
       (Inr (item_or_none kvs ''host'', item_or_none kvs ''id'', item_or_none kvs ''secret''),
        t @ [DefaultAzureCredential,
             SecretClient (''https://'' @ format_name kv @ ''.vault.azure.net''),
             Get_secret (''https://'' @ format_name kv @ ''.vault.azure.net'')
               ''minio-credentials''])"
  by (simp add: get_azure_keyvault_secret_def keyvault_body_def eff_defs credential_fields_def
      loads_value_def dict_get_def vault_url_def)

text \<open>
  Claim C8. A successful cluster lookup authenticates, reads the named secret in the named
  namespace, base64-decodes the text under the key \<^verbatim>\<open>minio\<close>, parses it and returns the
  fields \<^verbatim>\<open>host\<close>, \<^verbatim>\<open>id\<close>, \<^verbatim>\<open>secret\<close>. A successful key vault lookup fetches the secret
  \<^verbatim>\<open>minio-credentials\<close> from \<^verbatim>\<open>https://<keyvault_name>.vault.azure.net\<close>, parses its value
  and returns the same three fields.
\<close>

theorem secret_payload_contract:
  "(load_incluster_config w = Inr () \<and> core_v1_api w = Inr ()
      \<and> read_namespaced_secret w sn ns = Inr secret \<and> data secret = Some d
      \<and> d ''minio'' = Some payload \<and> b64decode w payload = Inr raw
      \<and> utf8_decode w raw = Inr doc \<and> json_loads w doc = Inr (PDict kvs) \<longrightarrow>
     get_k8s_secret w sn ns t =
       (Inr (item_or_none kvs ''host'', item_or_none kvs ''id'', item_or_none kvs ''secret''),
        t @ [Load_incluster_config, CoreV1Api, Read_namespaced_secret sn ns]))
   \<and> (default_azure_credential w = Inr ()
      \<and> secret_client w (''https://'' @ format_name kv @ ''.vault.azure.net'') = Inr ()
      \<and> get_secret w (''https://'' @ format_name kv @ ''.vault.azure.net'')
            ''minio-credentials'' = Inr (Some vdoc)
      \<and> json_loads w vdoc = Inr (PDict vkvs) \<longrightarrow>
     get_azure_keyvault_secret w kv t =
       (Inr (item_or_none vkvs ''host'', item_or_none vkvs ''id'',
             item_or_none vkvs ''secret''),
        t @ [DefaultAzureCredential,
             SecretClient (''https://'' @ format_name kv @ ''.vault.azure.net''),
             Get_secret (''https://'' @ format_name kv @ ''.vault.azure.net'')
               ''minio-credentials'']))"
  using get_k8s_secret_success [of w sn ns secret d payload raw doc kvs t]
    get_azure_keyvault_secret_success [of w kv vdoc vkvs t]
  by blast

theorem secret_payload_contract_witness:
  "get_k8s_secret demo_world (Some ''minio-secret'') (Some ''default'') [] =
     (Inr (PStr ''minio.local'', PStr ''AK'', PStr ''SK''),
      [Load_incluster_config, CoreV1Api,
       Read_namespaced_secret (Some ''minio-secret'') (Some ''default'')])
   \<and> get_azure_keyvault_secret demo_world (Some ''my-keyvault'') [] =
     (Inr (PStr ''vault.local'', PStr ''VK'', PStr ''VS''),
      [DefaultAzureCredential, SecretClient ''https://my-keyvault.vault.azure.net'',
       Get_secret ''https://my-keyvault.vault.azure.net'' ''minio-credentials''])"
  using secret_payload_contract [where w = demo_world and sn = "Some ''minio-secret''"
      and ns = "Some ''default''" and secret = "\<lparr>data = Some [''minio'' \<mapsto> full_b64]\<rparr>"
      and d = "[''minio'' \<mapsto> full_b64]" and payload = full_b64 and raw = full_json
      and doc = full_json
      and kvs = "[(''host'', PStr ''minio.local''), (''id'', PStr ''AK''), (''secret'', PStr ''SK'')]"
      and t = "[]" and kv = "Some ''my-keyvault''" and vdoc = vault_json
      and vkvs = "[(''host'', PStr ''vault.local''), (''id'', PStr ''VK''), (''secret'', PStr ''VS'')]"]
  by (simp add: demo_world_def full_b64_def full_json_def partial_b64_def partial_json_def
      vault_json_def item_or_none_def)

section \<open>The storage facade: the claims\<close>

lemma delegate_run:
  "delegate c f (t, s) = (fst (f s), (t @ [c], snd (f s)))"
  by (simp add: delegate_def split: prod.splits)

text \<open>\<^verbatim>\<open>create_bucket\<close>, by the outcome of the existence check.\<close>

lemma create_bucket_run:
  "create_bucket m b (t, s) =
     (case api_bucket_exists m b s of
        (Inl e, s1) \<Rightarrow> (Inl e, (t @ [Bucket_exists b], s1))
      | (Inr True, s1) \<Rightarrow> (Inr (), (t @ [Bucket_exists b], s1))
      | (Inr False, s1) \<Rightarrow>
          (fst (api_make_bucket m b s1),
           (t @ [Bucket_exists b, Make_bucket b], snd (api_make_bucket m b s1))))"
  by (simp add: create_bucket_def bucket_exists_def and_then_def ret_def delegate_run
      split: prod.splits sum.splits bool.splits)

lemmas mem_defs =
  mem_client_def no_such_bucket_def access_denied_def failing_check_def read_only_def
  creations_def create_bucket_twice_def and_then_def ret_def

text \<open>
  Claim C4, as stated, fails: on a bucket that exists already, two calls of
  \<^verbatim>\<open>create_bucket\<close> make two existence checks and no creation call at all.
\<close>

theorem create_bucket_twice_counterexample:
  "create_bucket_twice mem_client ''my-bucket'' ([], [(''my-bucket'', [])]) =
     (Inr (), ([Bucket_exists ''my-bucket'', Bucket_exists ''my-bucket''],
               [(''my-bucket'', [])]))
   \<and> creations (fst (snd (create_bucket_twice mem_client ''my-bucket''
        ([], [(''my-bucket'', [])])))) \<noteq> 1"
  by (simp add: mem_defs create_bucket_run)

text \<open>
  Claim C4, amended. Two calls of \<^verbatim>\<open>create_bucket\<close> in succession make exactly one creation
  call when the bucket is not there at first, its creation succeeds and the client then
  reports it; they make none when the bucket is there from the start.
\<close>

theorem create_bucket_twice_creates_once:
  "(api_bucket_exists m b s = (Inr False, s1) \<and> api_make_bucket m b s1 = (Inr (), s2)
      \<and> api_bucket_exists m b s2 = (Inr True, s3) \<longrightarrow>
      create_bucket_twice m b (t, s) =
        (Inr (), (t @ [Bucket_exists b, Make_bucket b, Bucket_exists b], s3))
      \<and> creations (fst (snd (create_bucket_twice m b ([], s)))) = 1)
   \<and> (api_bucket_exists m b s = (Inr True, s1) \<and> api_bucket_exists m b s1 = (Inr True, s2) \<longrightarrow>
      create_bucket_twice m b (t, s) = (Inr (), (t @ [Bucket_exists b, Bucket_exists b], s2))
      \<and> creations (fst (snd (create_bucket_twice m b ([], s)))) = 0)"
  by (simp add: create_bucket_twice_def and_then_def create_bucket_run creations_def)

theorem create_bucket_twice_creates_once_witness:
  "create_bucket_twice mem_client ''my-bucket'' ([], []) =
     (Inr (), ([Bucket_exists ''my-bucket'', Make_bucket ''my-bucket'',
                Bucket_exists ''my-bucket''], [(''my-bucket'', [])]))
   \<and> creations (fst (snd (create_bucket_twice mem_client ''my-bucket'' ([], [])))) = 1
   \<and> creations (fst (snd (create_bucket_twice mem_client ''my-bucket''
        ([], [(''my-bucket'', [''example.txt''])])))) = 0"
  using create_bucket_twice_creates_once [where m = mem_client and b = "''my-bucket''"
      and s = "[]" and ?s1.0 = "[]" and ?s2.0 = "[(''my-bucket'', [])]"
      and ?s3.0 = "[(''my-bucket'', [])]" and t = "[]"]
    create_bucket_twice_creates_once [where m = mem_client and b = "''my-bucket''"
      and s = "[(''my-bucket'', [''example.txt''])]"
      and ?s1.0 = "[(''my-bucket'', [''example.txt''])]"
      and ?s2.0 = "[(''my-bucket'', [''example.txt''])]" and t = "[]"]
  by (simp add: mem_defs create_bucket_run)

text \<open>
  Claim C6. A failure of the storage client is the failure of the facade's method, the
  same exception, after one call of the client and no more; \<^verbatim>\<open>create_bucket\<close> fails with
  its existence check, or else with the one creation call that follows a negative check.
  For \<^verbatim>\<open>list_objects\<close> the failure is the exception that ends the client's iterator.
\<close>

theorem storage_failures_propagate:
  "(api_bucket_exists m b s = (Inl e, s') \<longrightarrow>
      bucket_exists m b (t, s) = (Inl e, (t @ [Bucket_exists b], s'))
      \<and> create_bucket m b (t, s) = (Inl e, (t @ [Bucket_exists b], s')))
   \<and> (api_bucket_exists m b s = (Inr False, s1) \<and> api_make_bucket m b s1 = (Inl e, s') \<longrightarrow>
      create_bucket m b (t, s) = (Inl e, (t @ [Bucket_exists b, Make_bucket b], s')))
   \<and> (api_remove_bucket m b s = (Inl e, s') \<longrightarrow>
      delete_bucket m b (t, s) = (Inl e, (t @ [Remove_bucket b], s')))
   \<and> (api_fput_object m b n path s = (Inl e, s') \<longrightarrow>
      upload_file m b n path (t, s) = (Inl e, (t @ [Fput_object b n path], s')))
   \<and> (api_fget_object m b n path s = (Inl e, s') \<longrightarrow>
      download_file m b n path (t, s) = (Inl e, (t @ [Fget_object b n path], s')))
   \<and> (api_list_objects m b pre s = ((objs, Some e), s') \<longrightarrow>
      list_objects m b pre (t, s) = (Inl e, (t @ [List_objects b pre], s')))
   \<and> (api_remove_object m b n s = (Inl e, s') \<longrightarrow>
      delete_object m b n (t, s) = (Inl e, (t @ [Remove_object b n], s')))"
  by (simp add: bucket_exists_def create_bucket_run delete_bucket_def upload_file_def
      download_file_def list_objects_def delete_object_def delegate_run comprehension_def)

theorem storage_failures_propagate_witness:
  "bucket_exists failing_check ''b'' ([], []) = (Inl access_denied, ([Bucket_exists ''b''], []))
   \<and> create_bucket failing_check ''b'' ([], []) =
       (Inl access_denied, ([Bucket_exists ''b''], []))
   \<and> create_bucket read_only ''b'' ([], []) =
       (Inl access_denied, ([Bucket_exists ''b'', Make_bucket ''b''], []))
   \<and> delete_bucket mem_client ''b'' ([], []) =
       (Inl no_such_bucket, ([Remove_bucket ''b''], []))
   \<and> upload_file mem_client ''b'' ''x'' ''./x'' ([], []) =
       (Inl no_such_bucket, ([Fput_object ''b'' ''x'' ''./x''], []))
   \<and> download_file mem_client ''b'' ''x'' ''./x'' ([], []) =
       (Inl no_such_bucket, ([Fget_object ''b'' ''x'' ''./x''], []))
   \<and> list_objects mem_client ''b'' None ([], []) =
       (Inl no_such_bucket, ([List_objects ''b'' None], []))
   \<and> delete_object mem_client ''b'' ''x'' ([], []) =
       (Inl no_such_bucket, ([Remove_object ''b'' ''x''], []))"
  using storage_failures_propagate [where m = mem_client and b = "''b''" and s = "[]"
      and s' = "[]" and e = no_such_bucket and t = "[]" and n = "''x''" and path = "''./x''"
      and pre = None and objs = "[]" and ?s1.0 = "[]"]
    storage_failures_propagate [where m = failing_check and b = "''b''" and s = "[]"
      and s' = "[]" and e = access_denied and t = "[]"]
    storage_failures_propagate [where m = read_only and b = "''b''" and s = "[]"
      and s' = "[]" and e = access_denied and t = "[]" and ?s1.0 = "[]"]
  by (simp add: mem_defs)

text \<open>
  Claim C7, as stated, fails: the facade does not select names by the prefix, it hands
  the prefix to the client and returns the names of what the client yields. The client is
  called without recursion, so for the prefix \<^verbatim>\<open>a\<close> and a bucket holding \<^verbatim>\<open>a/y\<close> and
  \<^verbatim>\<open>a/x\<close> it yields the one directory entry \<^verbatim>\<open>a/\<close>: the facade returns \<^verbatim>\<open>a/\<close>, which is
  not the list of the object names that match the prefix.
\<close>

theorem list_objects_counterexample:
  "list_objects shallow_client ''b'' (Some ''a'') ([], [(''b'', [''a/y'', ''a/x''])]) =
     (Inr [''a/''], ([List_objects ''b'' (Some ''a'')], [(''b'', [''a/y'', ''a/x''])]))
   \<and> filter (matches (Some ''a'')) [''a/y'', ''a/x''] = [''a/y'', ''a/x'']
   \<and> [''a/''] \<noteq> [''a/y'', ''a/x'']"
  by (simp add: mem_defs shallow_client_def shallow_listing_def shallow_entry_def
      list_objects_def delegate_run comprehension_def)

text \<open>
  Claim C7, amended. \<^verbatim>\<open>list_objects\<close> asks the client once, with the bucket and the prefix
  it was given, and returns the name of each entry the client yields, one for one and in
  the client's order, without reordering, filtering or adding. The names returned match
  the prefix when the names of the client's entries do; which entries stand for the
  bucket's objects is the client's choice.
\<close>

theorem list_objects_names_in_order:
  "(api_list_objects m b pre s = ((objs, None), s') \<longrightarrow>
      list_objects m b pre (t, s) =
        (Inr (map object_name objs), (t @ [List_objects b pre], s')))
   \<and> (api_list_objects m b pre s = ((objs, None), s')
        \<and> (\<forall>x \<in> set objs. matches pre (object_name x)) \<longrightarrow>
      (\<exists>names. fst (list_objects m b pre (t, s)) = Inr names
         \<and> (\<forall>n \<in> set names. matches pre n)))"
  by (auto simp add: list_objects_def delegate_run comprehension_def)

theorem list_objects_names_in_order_witness:
  "list_objects mem_client ''b'' (Some ''a/'') ([], [(''b'', [''a/y'', ''c'', ''a/x''])]) =
     (Inr [''a/y'', ''a/x''], ([List_objects ''b'' (Some ''a/'')],
       [(''b'', [''a/y'', ''c'', ''a/x''])]))
   \<and> list_objects shallow_client ''b'' (Some ''a/'')
        ([], [(''b'', [''a/y'', ''c'', ''a/d/e''])]) =
     (Inr [''a/y'', ''a/d/''], ([List_objects ''b'' (Some ''a/'')],
       [(''b'', [''a/y'', ''c'', ''a/d/e''])]))"
  using list_objects_names_in_order [where m = mem_client and b = "''b''"
      and pre = "Some ''a/''" and s = "[(''b'', [''a/y'', ''c'', ''a/x''])]"
      and s' = "[(''b'', [''a/y'', ''c'', ''a/x''])]" and t = "[]"
      and objs = "[\<lparr>object_name = ''a/y'', size = 0, is_dir = False\<rparr>,
                   \<lparr>object_name = ''a/x'', size = 0, is_dir = False\<rparr>]"]
    list_objects_names_in_order [where m = shallow_client and b = "''b''"
      and pre = "Some ''a/''" and s = "[(''b'', [''a/y'', ''c'', ''a/d/e''])]"
      and s' = "[(''b'', [''a/y'', ''c'', ''a/d/e''])]" and t = "[]"
      and objs = "[\<lparr>object_name = ''a/y'', size = 0, is_dir = False\<rparr>,
                   \<lparr>object_name = ''a/d/'', size = 0, is_dir = True\<rparr>]"]
  by (simp add: mem_defs shallow_client_def shallow_listing_def shallow_entry_def)

text \<open>
  Claim C10. \<^verbatim>\<open>create_bucket\<close> calls \<^verbatim>\<open>make_bucket\<close> after an existence check that
  answered false, and only then: a check that answers true ends the method, a check that
  raises ends it with that exception, and in both cases the check is the only call made
  and the storage is left as the check left it.
\<close>

theorem create_bucket_checks_first:
  "(api_bucket_exists m b s = (Inr False, s1) \<longrightarrow>
      create_bucket m b (t, s) =
        (fst (api_make_bucket m b s1),
         (t @ [Bucket_exists b, Make_bucket b], snd (api_make_bucket m b s1))))
   \<and> (api_bucket_exists m b s = (Inr True, s1) \<longrightarrow>
      create_bucket m b (t, s) = (Inr (), (t @ [Bucket_exists b], s1)))
   \<and> (api_bucket_exists m b s = (Inl e, s1) \<longrightarrow>
      create_bucket m b (t, s) = (Inl e, (t @ [Bucket_exists b], s1)))
   \<and> (list_ex is_make_bucket (fst (snd (create_bucket m b ([], s)))) \<longrightarrow>
      fst (api_bucket_exists m b s) = Inr False)"
  by (auto simp add: create_bucket_run split: prod.splits sum.splits bool.splits)

theorem create_bucket_checks_first_witness:
  "create_bucket mem_client ''b'' ([], []) =
     (Inr (), ([Bucket_exists ''b'', Make_bucket ''b''], [(''b'', [])]))
   \<and> create_bucket mem_client ''b'' ([], [(''b'', [])]) =
     (Inr (), ([Bucket_exists ''b''], [(''b'', [])]))
   \<and> create_bucket failing_check ''b'' ([], [(''c'', [])]) =
     (Inl access_denied, ([Bucket_exists ''b''], [(''c'', [])]))"
  using create_bucket_checks_first [where m = mem_client and b = "''b''" and s = "[]"
      and ?s1.0 = "[]" and t = "[]"]
    create_bucket_checks_first [where m = mem_client and b = "''b''" and s = "[(''b'', [])]"
      and ?s1.0 = "[(''b'', [])]" and t = "[]"]
    create_bucket_checks_first [where m = failing_check and b = "''b''" and s = "[(''c'', [])]"
      and ?s1.0 = "[(''c'', [])]" and t = "[]" and e = access_denied]
  by (simp add: mem_defs)

end
